theory Spec2Isabelle
  imports
    Complex_Main
    "HOL-Library.Multiset"
    "HOL-Library.Sublist"
    "HOL-Library.Char_ord"
    "HOL-Library.List_Lexorder"
    "HOL-Library.Product_Lexorder"
begin

section \<open>Conventions\<close>

text \<open>
  Python floats are modelled as exact rationals; a float that is not a finite number
  (NaN, or the result of dividing by zero) is \<open>None\<close> of \<open>rat option\<close>. Rounding is
  therefore not modelled: an equation proved here holds in the program up to the
  rounding of IEEE arithmetic. Exceptions are values of \<open>exn\<close>, and a computation that
  may raise returns \<open>exn + 'a\<close> with \<open>Inl\<close> for the exception.
\<close>

datatype exn =
    ValueError string
  | TypeError string
  | IndexError string
  | RetryError string
  | Exception string

section \<open>Sales data processor (src/data/processor.py)\<close>

subsection \<open>The data frame\<close>

text \<open>
  A cell of the frame read by \<open>pd.read_csv\<close> is a value or missing (NaN), which is
  \<open>None\<close>. The numeric columns are given as \<open>pd.to_numeric(errors='coerce')\<close> leaves
  them, so an unparsable number is \<open>None\<close> too. \<open>ORDERDATE\<close> is converted by
  \<open>pd.to_datetime\<close> without \<open>errors='coerce'\<close>: a text that is no date raises.
  The columns that no aggregate below reads (phone, city, country, contact names, deal
  size, ...) are kept together in \<open>other_columns\<close>, since two rows are duplicates only when
  all their cells agree.
\<close>

datatype date_cell = Date nat | NaT | BadDate string

record SalesRow =
  ORDERNUMBER :: "int option"
  QUANTITYORDERED :: "rat option"
  PRICEEACH :: "rat option"
  SALES :: "rat option"
  ORDERDATE :: date_cell
  STATUS :: "string option"
  PRODUCTLINE :: "string option"
  PRODUCTCODE :: "string option"
  CUSTOMERNAME :: "string option"
  STATE :: "string option"
  POSTALCODE :: "string option"
  TERRITORY :: "string option"
  other_columns :: "string option list"

type_synonym frame = "SalesRow list"

subsection \<open>Column reductions of pandas\<close>

text \<open>\<open>count\<close>, \<open>sum\<close>, \<open>mean\<close> and \<open>max\<close> of a column skip the missing cells; the mean
  and the maximum of a column without any value are NaN.\<close>

definition col_count :: "('r \<Rightarrow> 'a option) \<Rightarrow> 'r list \<Rightarrow> nat" where
  "col_count col g = length (List.map_filter col g)"

definition col_sum :: "('r \<Rightarrow> rat option) \<Rightarrow> 'r list \<Rightarrow> rat" where
  "col_sum col g = sum_list (List.map_filter col g)"

definition col_mean :: "('r \<Rightarrow> rat option) \<Rightarrow> 'r list \<Rightarrow> rat option" where
  "col_mean col g =
     (let vs = List.map_filter col g
      in if vs = [] then None else Some (sum_list vs / of_nat (length vs)))"

definition series_max :: "('a::linorder) list \<Rightarrow> 'a option" where
  "series_max vs = (case vs of [] \<Rightarrow> None | v # rest \<Rightarrow> Some (fold max rest v))"

definition col_max :: "('r \<Rightarrow> ('a::linorder) option) \<Rightarrow> 'r list \<Rightarrow> 'a option" where
  "col_max col g = series_max (List.map_filter col g)"

definition col_nunique :: "('r \<Rightarrow> 'a option) \<Rightarrow> 'r list \<Rightarrow> nat" where
  "col_nunique col g = length (remdups (List.map_filter col g))"

text \<open>\<open>groupby\<close> drops the rows whose key is missing and yields the groups in the
  sorted order of their keys.\<close>

definition group_keys :: "('r \<Rightarrow> ('k::linorder) option) \<Rightarrow> 'r list \<Rightarrow> 'k list" where
  "group_keys key df = sort (remdups (List.map_filter key df))"

definition group_rows :: "('r \<Rightarrow> 'k option) \<Rightarrow> 'r list \<Rightarrow> 'k \<Rightarrow> 'r list" where
  "group_rows key df k = filter (\<lambda>r. key r = Some k) df"

text \<open>The assignments \<open>d[k] = v\<close> of a loop, applied in order to the empty dictionary.\<close>

definition dict_of :: "('k \<times> 'v) list \<Rightarrow> ('k \<rightharpoonup> 'v)" where
  "dict_of assignments = fold (\<lambda>(k, v) d. d(k \<mapsto> v)) assignments Map.empty"

text \<open>A float division whose divisor is zero produces no finite number.\<close>

definition float_div :: "rat \<Rightarrow> rat \<Rightarrow> rat option" where
  "float_div x y = (if y = 0 then None else Some (x / y))"

subsection \<open>\<open>clean_data\<close>\<close>

fun drop_duplicates_from :: "'a list \<Rightarrow> 'a list \<Rightarrow> 'a list" where
  "drop_duplicates_from seen [] = []"
| "drop_duplicates_from seen (r # rs) =
     (if r \<in> set seen then drop_duplicates_from seen rs
      else r # drop_duplicates_from (r # seen) rs)"

definition drop_duplicates :: "'a list \<Rightarrow> 'a list" where
  "drop_duplicates df = drop_duplicates_from [] df"

definition fillna :: "string \<Rightarrow> string option \<Rightarrow> string option" where
  "fillna v c = (case c of None \<Rightarrow> Some v | Some s \<Rightarrow> Some s)"

fun is_bad_date :: "date_cell \<Rightarrow> bool" where
  "is_bad_date (BadDate s) = True"
| "is_bad_date d = False"

definition fill_missing :: "SalesRow \<Rightarrow> SalesRow" where
  "fill_missing r =
     r\<lparr>STATE := fillna ''Unknown'' (STATE r), POSTALCODE := fillna ''Unknown'' (POSTALCODE r)\<rparr>"

definition clean_data :: "frame \<Rightarrow> exn + frame" where
  "clean_data df =
     (if list_ex (\<lambda>r. is_bad_date (ORDERDATE r)) df then Inl (ValueError ''ORDERDATE'')
      else Inr (drop_duplicates (map fill_missing df)))"

subsection \<open>\<open>create_customer_profiles\<close>\<close>

text \<open>
  Of the profile, the fields that are counts, sums and means, and the status. The other
  aggregates of the group (first cells, latest date, deal sizes, most frequent product
  line) are left out; the last of them, \<open>value_counts().index[0]\<close>, raises for a customer
  none of whose rows has a product line, where the source then produces no profile at
  all and the functions below still describe one.
\<close>

record CustomerProfile =
  name :: string
  total_orders :: nat
  total_sales :: rat
  avg_order_value :: "rat option"
  customer_status :: string

definition customer_row :: "frame \<Rightarrow> string \<Rightarrow> CustomerProfile" where
  "customer_row df k =
     (let g = group_rows CUSTOMERNAME df k
      in \<lparr>name = k,
          total_orders = col_count ORDERNUMBER g,
          total_sales = col_sum SALES g,
          avg_order_value = col_mean SALES g,
          customer_status =
            (if Some ''Shipped'' \<in> set (map STATUS g) then ''Active'' else ''Inactive'')\<rparr>)"

definition create_customer_profiles :: "frame \<Rightarrow> (string \<rightharpoonup> CustomerProfile)" where
  "create_customer_profiles df =
     dict_of (map (\<lambda>k. (k, customer_row df k)) (group_keys CUSTOMERNAME df))"

subsection \<open>\<open>analyze_product_catalog\<close> and \<open>_calculate_product_performance\<close>\<close>

text \<open>
  Of the catalog entry, the numeric fields. The typical deal size is left out; its
  aggregate \<open>value_counts().index[0]\<close> raises for a product none of whose rows has a deal
  size, where the source then produces no catalog at all.
\<close>

record ProductRow =
  product_line :: string
  product_code :: string
  p_total_sales :: rat
  avg_sales :: "rat option"
  order_count :: nat
  avg_price :: "rat option"
  total_quantity :: rat

record ProductEntry = ProductRow +
  performance_score :: rat

definition product_key :: "SalesRow \<Rightarrow> (string \<times> string) option" where
  "product_key r =
     (case (PRODUCTLINE r, PRODUCTCODE r) of
        (Some l, Some c) \<Rightarrow> Some (l, c)
      | _ \<Rightarrow> None)"

definition product_row :: "frame \<Rightarrow> string \<times> string \<Rightarrow> ProductRow" where
  "product_row df k =
     (let g = group_rows product_key df k
      in \<lparr>product_line = fst k,
          product_code = snd k,
          p_total_sales = col_sum SALES g,
          avg_sales = col_mean SALES g,
          order_count = col_count SALES g,
          avg_price = col_mean PRICEEACH g,
          total_quantity = col_sum QUANTITYORDERED g\<rparr>)"

text \<open>A comparison with NaN is false, so a missing maximum takes the \<open>else 0\<close> branch.\<close>

definition normalised :: "rat \<Rightarrow> rat option \<Rightarrow> rat" where
  "normalised x mx = (case mx of None \<Rightarrow> 0 | Some m \<Rightarrow> if m > 0 then x / m else 0)"

definition calculate_product_performance :: "frame \<Rightarrow> ProductRow \<Rightarrow> rat" where
  "calculate_product_performance df row =
     (let max_sales = col_max SALES df;
          max_orders =
            series_max (map (\<lambda>c. col_count ORDERNUMBER (group_rows PRODUCTCODE df c))
                          (group_keys PRODUCTCODE df));
          max_quantity =
            series_max (map (\<lambda>c. col_sum QUANTITYORDERED (group_rows PRODUCTCODE df c))
                          (group_keys PRODUCTCODE df));
          sales_score = normalised (p_total_sales row) max_sales;
          order_score = normalised (of_nat (order_count row)) (map_option of_nat max_orders);
          quantity_score = normalised (total_quantity row) max_quantity
      in sales_score * (1/2) + order_score * (3/10) + quantity_score * (1/5))"

definition catalog_key :: "string \<times> string \<Rightarrow> string" where
  "catalog_key k = fst k @ ''_'' @ snd k"

definition product_entry :: "frame \<Rightarrow> string \<times> string \<Rightarrow> ProductEntry" where
  "product_entry df k =
     (let row = product_row df k
      in \<lparr>product_line = product_line row,
          product_code = product_code row,
          p_total_sales = p_total_sales row,
          avg_sales = avg_sales row,
          order_count = order_count row,
          avg_price = avg_price row,
          total_quantity = total_quantity row,
          performance_score = calculate_product_performance df row\<rparr>)"

definition analyze_product_catalog :: "frame \<Rightarrow> (string \<rightharpoonup> ProductEntry)" where
  "analyze_product_catalog df =
     dict_of (map (\<lambda>k. (catalog_key k, product_entry df k)) (group_keys product_key df))"

subsection \<open>\<open>analyze_territories\<close>\<close>

record TerritoryEntry =
  t_total_sales :: rat
  t_avg_sales :: "rat option"
  t_total_orders :: nat
  unique_customers :: nat
  market_share :: "rat option"

definition territory_row :: "frame \<Rightarrow> string \<Rightarrow> TerritoryEntry" where
  "territory_row df k =
     (let g = group_rows TERRITORY df k
      in \<lparr>t_total_sales = col_sum SALES g,
          t_avg_sales = col_mean SALES g,
          t_total_orders = col_count SALES g,
          unique_customers = col_nunique CUSTOMERNAME g,
          market_share =
            map_option (\<lambda>q. q * 100) (float_div (col_sum SALES g) (col_sum SALES df))\<rparr>)"

definition analyze_territories :: "frame \<Rightarrow> (string \<rightharpoonup> TerritoryEntry)" where
  "analyze_territories df =
     dict_of (map (\<lambda>k. (k, territory_row df k)) (group_keys TERRITORY df))"

subsection \<open>\<open>process_all\<close>, after the frame is loaded\<close>

text \<open>
  The three collections the processor holds once \<open>process_all\<close> has cleaned the frame and
  run the three aggregations, together with the cleaned frame. The summary that the
  source returns after them (record count, date range, total and mean of the sales) is
  not part of it; its date range raises when no row has a date, after the collections
  are already in place.
\<close>

record Aggregates =
  customer_profiles :: "string \<rightharpoonup> CustomerProfile"
  product_catalog :: "string \<rightharpoonup> ProductEntry"
  territory_analysis :: "string \<rightharpoonup> TerritoryEntry"
  cleaned :: frame

definition process_all :: "frame \<Rightarrow> exn + Aggregates" where
  "process_all raw =
     (case clean_data raw of
        Inl e \<Rightarrow> Inl e
      | Inr df \<Rightarrow>
          Inr \<lparr>customer_profiles = create_customer_profiles df,
               product_catalog = analyze_product_catalog df,
               territory_analysis = analyze_territories df,
               cleaned = df\<rparr>)"

text \<open>The market shares of all territories of the analysis, added up; \<open>None\<close> when one
  of them is no finite number.\<close>

fun sum_options :: "rat option list \<Rightarrow> rat option" where
  "sum_options [] = Some 0"
| "sum_options (None # xs) = None"
| "sum_options (Some x # xs) = map_option (\<lambda>s. x + s) (sum_options xs)"

definition market_share_total :: "frame \<Rightarrow> rat option" where
  "market_share_total df =
     sum_options (map (\<lambda>k. case analyze_territories df k of
                              None \<Rightarrow> None
                            | Some t \<Rightarrow> market_share t)
                      (group_keys TERRITORY df))"

section \<open>Embedding generator (src/embeddings/generator.py)\<close>

type_synonym vec = "rat list"

subsection \<open>\<open>generate_text_embedding\<close>\<close>

text \<open>
  The sentence-transformer model is outside the program: \<open>encode\<close> is its answer to a
  text, a vector or an exception, and \<open>float32\<close> the rounding of \<open>astype(np.float32)\<close>.
  \<open>EMBEDDING_DIMENSION\<close> is the configured dimension.
\<close>

record Generator =
  encode :: "string \<Rightarrow> exn + vec"
  float32 :: "rat \<Rightarrow> rat"
  EMBEDDING_DIMENSION :: nat

definition try_except :: "exn + 'a \<Rightarrow> (exn \<Rightarrow> exn + 'a) \<Rightarrow> exn + 'a" where
  "try_except body handler = (case body of Inl e \<Rightarrow> handler e | Inr v \<Rightarrow> Inr v)"

definition np_zeros :: "nat \<Rightarrow> vec" where
  "np_zeros n = replicate n 0"

definition generate_text_embedding :: "Generator \<Rightarrow> string \<Rightarrow> exn + vec" where
  "generate_text_embedding gen txt =
     try_except
       (case encode gen txt of
          Inl e \<Rightarrow> Inl e
        | Inr embedding \<Rightarrow> Inr (map (float32 gen) embedding))
       (\<lambda>e. Inr (np_zeros (EMBEDDING_DIMENSION gen)))"

subsection \<open>\<open>_check_rate_limit\<close>\<close>

text \<open>
  The state of the generator and of the world it acts on: the tracker, the clock read
  by \<open>time.time()\<close> and moved by \<open>time.sleep\<close>, the sleeps made so far, and the number
  of requests sent to the generation service.
\<close>

record GenState =
  rate_limit_tracker :: "rat list"
  clock :: rat
  slept :: "rat list"
  groq_calls :: nat

definition time_sleep :: "rat \<Rightarrow> GenState \<Rightarrow> exn + GenState" where
  "time_sleep d s =
     (if d < 0 then Inl (ValueError ''sleep length must be non-negative'')
      else Inr (s\<lparr>clock := clock s + d, slept := slept s @ [d]\<rparr>))"

definition check_rate_limit :: "int \<Rightarrow> GenState \<Rightarrow> (exn + unit) \<times> GenState" where
  "check_rate_limit RATE_LIMIT_REQUESTS s =
     (let current_time = clock s;
          s1 = s\<lparr>rate_limit_tracker :=
                 filter (\<lambda>req_time. current_time - req_time < 60) (rate_limit_tracker s)\<rparr>
      in if int (length (rate_limit_tracker s1)) \<ge> RATE_LIMIT_REQUESTS then
           (case rate_limit_tracker s1 of
              [] \<Rightarrow> (Inl (IndexError ''list index out of range''), s1)
            | t0 # rest \<Rightarrow>
                (case time_sleep (60 - (current_time - t0)) s1 of
                   Inl e \<Rightarrow> (Inl e, s1)
                 | Inr s2 \<Rightarrow>
                     (Inr (), s2\<lparr>rate_limit_tracker := rate_limit_tracker s2 @ [current_time]\<rparr>)))
         else (Inr (), s1\<lparr>rate_limit_tracker := rate_limit_tracker s1 @ [current_time]\<rparr>))"

subsection \<open>\<open>enhance_text_with_groq\<close> under \<open>@retry\<close>\<close>

text \<open>The whitespace of \<open>str.strip()\<close> among the ASCII characters; a text is a list of
  bytes here, and the whitespace beyond ASCII is left in place.\<close>

definition is_space :: "char \<Rightarrow> bool" where
  "is_space c =
     (c \<in> set [CHR '' '', CHR 0x09, CHR 0x0A, CHR 0x0B, CHR 0x0C, CHR 0x0D,
                CHR 0x1C, CHR 0x1D, CHR 0x1E, CHR 0x1F])"

definition strip :: "string \<Rightarrow> string" where
  "strip s = rev (dropWhile is_space (rev (dropWhile is_space s)))"

text \<open>
  The body of the function, one attempt. \<open>groq k\<close> is the outcome of the \<open>k\<close>-th request
  to the generation service (counted from 0): the content of its first choice, or the
  exception raised on the way to it. The rate-limit check stands before the \<open>try\<close>;
  the request and the reading of its answer stand inside it, and the handler returns
  the text it was given. The prompt, built from the text and the context hint, goes to the
  service only, whose answer \<open>groq\<close> stands for.
\<close>

definition enhance_attempt ::
  "(nat \<Rightarrow> exn + string) \<Rightarrow> int \<Rightarrow> string \<Rightarrow> GenState \<Rightarrow> (exn + string) \<times> GenState" where
  "enhance_attempt groq RATE_LIMIT_REQUESTS txt s =
     (case check_rate_limit RATE_LIMIT_REQUESTS s of
        (Inl e, s1) \<Rightarrow> (Inl e, s1)
      | (Inr u, s1) \<Rightarrow>
          (let s2 = s1\<lparr>groq_calls := Suc (groq_calls s1)\<rparr>
           in (try_except
                 (case groq (groq_calls s1) of
                    Inl e \<Rightarrow> Inl e
                  | Inr content \<Rightarrow> Inr (strip content))
                 (\<lambda>e. Inr txt), s2)))"

text \<open>\<open>wait_exponential(multiplier, min, max)\<close> of tenacity, for the attempt just failed.\<close>

definition wait_exponential :: "rat \<Rightarrow> rat \<Rightarrow> rat \<Rightarrow> nat \<Rightarrow> rat" where
  "wait_exponential multiplier mn mx attempt_number =
     max (max 0 mn) (min (multiplier * 2 ^ (attempt_number - 1)) mx)"

text \<open>
  \<open>@retry(stop=stop_after_attempt(n), wait=w)\<close>: the decorated function is called; a
  returned value is the result; an exception that leaves it starts another attempt after
  the wait, until attempt \<open>n\<close> has failed, and then \<open>RetryError\<close> is raised.
\<close>

function retry ::
  "nat \<Rightarrow> (nat \<Rightarrow> rat) \<Rightarrow> nat \<Rightarrow> (GenState \<Rightarrow> (exn + 'a) \<times> GenState) \<Rightarrow> GenState
     \<Rightarrow> (exn + 'a) \<times> GenState" where
  "retry stop_after_attempt wait attempt_number f s =
     (case f s of
        (Inr v, s1) \<Rightarrow> (Inr v, s1)
      | (Inl e, s1) \<Rightarrow>
          (if attempt_number \<ge> stop_after_attempt then (Inl (RetryError ''RetryError''), s1)
           else (case time_sleep (wait attempt_number) s1 of
                   Inl e' \<Rightarrow> (Inl e', s1)
                 | Inr s2 \<Rightarrow> retry stop_after_attempt wait (Suc attempt_number) f s2)))"
  by pat_completeness auto
termination
  by (relation "measure (\<lambda>(n, w, a, f, s). n - a)") auto

definition enhance_text_with_groq ::
  "(nat \<Rightarrow> exn + string) \<Rightarrow> int \<Rightarrow> string \<Rightarrow> GenState \<Rightarrow> (exn + string) \<times> GenState" where
  "enhance_text_with_groq groq RATE_LIMIT_REQUESTS txt s =
     retry 3 (wait_exponential 1 4 10) 1 (enhance_attempt groq RATE_LIMIT_REQUESTS txt) s"

section \<open>Vector storage (src/embeddings/storage.py)\<close>

subsection \<open>Payloads, points and the collection\<close>

datatype jvalue =
    JNull
  | JBool bool
  | JNum rat
  | JStr string
  | JList "jvalue list"
  | JDict "(string \<times> jvalue) list"

type_synonym payload = "string \<rightharpoonup> jvalue"

record EmbeddingData =
  text_of :: string
  embedding :: vec
  metadata :: "(string \<times> jvalue) list"

record PointStruct =
  point_id :: string
  point_vector :: vec
  point_payload :: payload

text \<open>
  The vector database holds at most one point per id, in a collection created with a
  fixed vector size (\<open>_ensure_collection\<close> gives it \<open>EMBEDDING_DIMENSION\<close>). Its
  \<open>upsert\<close> overwrites the point that has the id of the new one and adds the new one
  otherwise. It raises, and writes nothing, when the service cannot be reached and when
  the vector of a point of the batch has not the size of the collection.
  \<open>uuid_drawn\<close> counts the calls of \<open>uuid.uuid4()\<close> so far, and the value of the
  \<open>k\<close>-th call is a parameter \<open>uuid4 k\<close> of the functions below.
\<close>

record Store =
  collection :: "PointStruct list"
  vector_size :: nat
  reachable :: bool
  uuid_drawn :: nat

fun upsert_point :: "PointStruct \<Rightarrow> PointStruct list \<Rightarrow> PointStruct list" where
  "upsert_point p [] = [p]"
| "upsert_point p (q # qs) =
     (if point_id q = point_id p then p # qs else q # upsert_point p qs)"

definition accepted :: "Store \<Rightarrow> PointStruct \<Rightarrow> bool" where
  "accepted st p = (length (point_vector p) = vector_size st)"

definition client_upsert :: "PointStruct list \<Rightarrow> Store \<Rightarrow> exn + Store" where
  "client_upsert ps st =
     (if \<not> reachable st then Inl (Exception ''connection refused'')
      else if \<not> list_all (accepted st) ps then Inl (Exception ''wrong vector dimension'')
      else Inr (st\<lparr>collection := fold upsert_point ps (collection st)\<rparr>))"

definition points_count :: "Store \<Rightarrow> nat" where
  "points_count st = length (collection st)"

subsection \<open>\<open>store_embeddings\<close>\<close>

definition make_point :: "string \<Rightarrow> string \<Rightarrow> EmbeddingData \<Rightarrow> PointStruct" where
  "make_point new_id k embedding_data =
     \<lparr>point_id = new_id,
      point_vector = embedding embedding_data,
      point_payload =
        dict_of ([(''key'', JStr k),
                  (''text'', JStr (text_of embedding_data)),
                  (''metadata'', JDict (metadata embedding_data))]
                 @ metadata embedding_data)\<rparr>"

fun make_points ::
  "(nat \<Rightarrow> string) \<Rightarrow> nat \<Rightarrow> (string \<times> EmbeddingData) list \<Rightarrow> PointStruct list" where
  "make_points uuid4 n [] = []"
| "make_points uuid4 n ((k, embedding_data) # items) =
     make_point (uuid4 n) k embedding_data # make_points uuid4 (Suc n) items"

definition store_embeddings ::
  "(nat \<Rightarrow> string) \<Rightarrow> (string \<times> EmbeddingData) list \<Rightarrow> Store \<Rightarrow> bool \<times> Store" where
  "store_embeddings uuid4 embeddings st =
     (if embeddings = [] then (True, st)
      else
        (let points = make_points uuid4 (uuid_drawn st) embeddings;
             st1 = st\<lparr>uuid_drawn := uuid_drawn st + length embeddings\<rparr>
         in if points = [] then (True, st1)
            else (case client_upsert points st1 of
                    Inl e \<Rightarrow> (False, st1)
                  | Inr st2 \<Rightarrow> (True, st2))))"

subsection \<open>\<open>search_similar\<close>\<close>

record SearchRequest =
  query_vector :: vec
  query_filter :: "(string \<times> string) list option"
  limit :: int
  score_threshold :: rat

record ScoredPoint =
  sp_id :: string
  score :: rat
  payload :: payload

text \<open>
  The search of the vector database is a parameter \<open>client\<close>: its answer to a request, the
  hits or an exception. The requests made are collected, in order, in the list \<open>sent\<close>.
\<close>

type_synonym client = "SearchRequest \<Rightarrow> exn + ScoredPoint list"

definition search_similar ::
  "client \<Rightarrow> vec \<Rightarrow> int \<Rightarrow> (string \<times> string) list \<Rightarrow> rat \<Rightarrow> SearchRequest list
     \<Rightarrow> ScoredPoint list \<times> SearchRequest list" where
  "search_similar client query_embedding result_limit filter_conditions threshold sent =
     (let request =
            \<lparr>query_vector = query_embedding,
             query_filter = (if filter_conditions \<noteq> [] then Some filter_conditions else None),
             limit = result_limit,
             score_threshold = threshold\<rparr>
      in (case client request of
            Inl e \<Rightarrow> []
          | Inr search_result \<Rightarrow>
              map (\<lambda>hit. \<lparr>sp_id = sp_id hit, score = score hit, payload = payload hit\<rparr>)
                  search_result,
          sent @ [request]))"

subsection \<open>The category searches and their numeric post-filter\<close>

text \<open>
  \<open>r['payload'].get(field, 0) >= minimum\<close>: an absent field counts as 0, a number is
  compared, a boolean is compared as 0 or 1, and any other value raises \<open>TypeError\<close>.
\<close>

definition payload_ge :: "payload \<Rightarrow> string \<Rightarrow> rat \<Rightarrow> exn + bool" where
  "payload_ge pl field minimum =
     (case pl field of
        None \<Rightarrow> Inr (0 \<ge> minimum)
      | Some (JNum v) \<Rightarrow> Inr (v \<ge> minimum)
      | Some (JBool b) \<Rightarrow> Inr ((if b then 1 else 0) \<ge> minimum)
      | Some other \<Rightarrow> Inl (TypeError ''>= not supported''))"

fun post_filter :: "string \<Rightarrow> rat \<Rightarrow> ScoredPoint list \<Rightarrow> exn + ScoredPoint list" where
  "post_filter field minimum [] = Inr []"
| "post_filter field minimum (r # rs) =
     (case payload_ge (payload r) field minimum of
        Inl e \<Rightarrow> Inl e
      | Inr keep \<Rightarrow>
          (case post_filter field minimum rs of
             Inl e \<Rightarrow> Inl e
           | Inr rs' \<Rightarrow> Inr (if keep then r # rs' else rs')))"

definition numeric_filter ::
  "string \<Rightarrow> rat option \<Rightarrow> ScoredPoint list \<Rightarrow> exn + ScoredPoint list" where
  "numeric_filter field minimum results =
     (case minimum of None \<Rightarrow> Inr results | Some m \<Rightarrow> post_filter field m results)"

text \<open>\<open>if territory:\<close> holds for a string that is given and not empty.\<close>

definition optional_condition :: "string \<Rightarrow> string option \<Rightarrow> (string \<times> string) list" where
  "optional_condition field v =
     (case v of None \<Rightarrow> [] | Some s \<Rightarrow> if s = [] then [] else [(field, s)])"

definition search_customers ::
  "client \<Rightarrow> vec \<Rightarrow> string option \<Rightarrow> rat option \<Rightarrow> string option \<Rightarrow> int \<Rightarrow> SearchRequest list
     \<Rightarrow> (exn + ScoredPoint list) \<times> SearchRequest list" where
  "search_customers client query_embedding territory min_sales status result_limit sent =
     (let filter_conditions =
            [(''type'', ''customer'')]
            @ optional_condition ''territory'' territory
            @ optional_condition ''customer_status'' status;
          (results, sent1) = search_similar client query_embedding result_limit filter_conditions 0 sent
      in (numeric_filter ''total_sales'' min_sales results, sent1))"

definition search_products ::
  "client \<Rightarrow> vec \<Rightarrow> string option \<Rightarrow> string option \<Rightarrow> rat option \<Rightarrow> int \<Rightarrow> SearchRequest list
     \<Rightarrow> (exn + ScoredPoint list) \<times> SearchRequest list" where
  "search_products client query_embedding line deal_size min_performance result_limit sent =
     (let filter_conditions =
            [(''type'', ''product'')]
            @ optional_condition ''product_line'' line
            @ optional_condition ''typical_deal_size'' deal_size;
          (results, sent1) = search_similar client query_embedding result_limit filter_conditions 0 sent
      in (numeric_filter ''performance_score'' min_performance results, sent1))"

definition search_territories ::
  "client \<Rightarrow> vec \<Rightarrow> rat option \<Rightarrow> int \<Rightarrow> SearchRequest list
     \<Rightarrow> (exn + ScoredPoint list) \<times> SearchRequest list" where
  "search_territories client query_embedding min_market_share result_limit sent =
     (let filter_conditions = [(''type'', ''territory'')];
          (results, sent1) = search_similar client query_embedding result_limit filter_conditions 0 sent
      in (numeric_filter ''market_share'' min_market_share results, sent1))"

section \<open>Sales agent (src/agent/sales_agent.py)\<close>

subsection \<open>\<open>retrieve_context\<close>\<close>

text \<open>\<open>list.sort(key=score, reverse=True)\<close> is a stable sort into descending order.\<close>

definition sort_by_score_desc :: "ScoredPoint list \<Rightarrow> ScoredPoint list" where
  "sort_by_score_desc rs = sort_key (\<lambda>x. - score x) rs"

definition category_search ::
  "bool \<Rightarrow> (SearchRequest list \<Rightarrow> (exn + ScoredPoint list) \<times> SearchRequest list)
     \<Rightarrow> SearchRequest list \<Rightarrow> (exn + ScoredPoint list) \<times> SearchRequest list" where
  "category_search wanted search sent = (if wanted then search sent else (Inr [], sent))"

definition retrieve_context ::
  "Generator \<Rightarrow> client \<Rightarrow> string \<Rightarrow> string \<Rightarrow> SearchRequest list
     \<Rightarrow> (exn + ScoredPoint list) \<times> SearchRequest list" where
  "retrieve_context gen client query context_type sent =
     (case generate_text_embedding gen query of
        Inl e \<Rightarrow> (Inl e, sent)
      | Inr query_embedding \<Rightarrow>
          (case category_search (context_type \<in> set [''all'', ''customer''])
                  (search_customers client query_embedding None None None 3) sent of
             (Inl e, sent1) \<Rightarrow> (Inl e, sent1)
           | (Inr customer_results, sent1) \<Rightarrow>
               (case category_search (context_type \<in> set [''all'', ''product''])
                       (search_products client query_embedding None None None 3) sent1 of
                  (Inl e, sent2) \<Rightarrow> (Inl e, sent2)
                | (Inr product_results, sent2) \<Rightarrow>
                    (case category_search (context_type \<in> set [''all'', ''territory''])
                            (search_territories client query_embedding None 2) sent2 of
                       (Inl e, sent3) \<Rightarrow> (Inl e, sent3)
                     | (Inr territory_results, sent3) \<Rightarrow>
                         (Inr (sort_by_score_desc
                                 (customer_results @ product_results @ territory_results)),
                          sent3)))))"

section \<open>Notions used in the statements\<close>

text \<open>
  The searches a scope asks for, as the specification words them: each category with
  its cap, in the order customer, product, territory; and the request that stands for
  one of them.
\<close>

definition spec_issued_searches :: "string \<Rightarrow> (string \<times> int) list" where
  "spec_issued_searches context_type =
     (if context_type = ''all'' \<or> context_type = ''customer'' then [(''customer'', 3)] else [])
     @ (if context_type = ''all'' \<or> context_type = ''product'' then [(''product'', 3)] else [])
     @ (if context_type = ''all'' \<or> context_type = ''territory'' then [(''territory'', 2)] else [])"

definition spec_category_request :: "vec \<Rightarrow> string \<times> int \<Rightarrow> SearchRequest" where
  "spec_category_request emb c =
     \<lparr>query_vector = emb, query_filter = Some [(''type'', fst c)], limit = snd c,
      score_threshold = 0\<rparr>"

text \<open>What a request brings back: the hits of the database, or nothing when it raised.\<close>

definition answer :: "client \<Rightarrow> SearchRequest \<Rightarrow> ScoredPoint list" where
  "answer client request = (case client request of Inl e \<Rightarrow> [] | Inr hits \<Rightarrow> hits)"

text \<open>A hit whose field can be compared with a number: absent, a number or a boolean.\<close>

definition comparable :: "string \<Rightarrow> ScoredPoint \<Rightarrow> bool" where
  "comparable field r =
     (case payload r field of
        None \<Rightarrow> True
      | Some (JNum v) \<Rightarrow> True
      | Some (JBool b) \<Rightarrow> True
      | Some other \<Rightarrow> False)"

text \<open>The entity keys of the stored points, in the order of the collection.\<close>

definition entity_keys :: "Store \<Rightarrow> jvalue option list" where
  "entity_keys st = map (\<lambda>p. point_payload p ''key'') (collection st)"

section \<open>Example inputs\<close>

definition example_row :: SalesRow where
  "example_row =
     \<lparr>ORDERNUMBER = Some 10100, QUANTITYORDERED = Some 1, PRICEEACH = Some 100, SALES = Some 100,
      ORDERDATE = Date 0, STATUS = Some ''Shipped'', PRODUCTLINE = Some ''Classic Cars'',
      PRODUCTCODE = Some ''S10_1949'', CUSTOMERNAME = Some ''Acme'', STATE = None,
      POSTALCODE = None, TERRITORY = Some ''EMEA'', other_columns = []\<rparr>"

text \<open>Two orders of one customer for one product, 100 each.\<close>

definition two_orders :: frame where
  "two_orders = [example_row, example_row\<lparr>ORDERNUMBER := Some 10101\<rparr>]"

definition two_orders_aggregates :: Aggregates where
  "two_orders_aggregates = projr (process_all two_orders)"

definition two_orders_product :: ProductEntry where
  "two_orders_product = the (product_catalog two_orders_aggregates ''Classic Cars_S10_1949'')"

definition two_orders_customer :: CustomerProfile where
  "two_orders_customer = the (customer_profiles two_orders_aggregates ''Acme'')"

text \<open>The same two orders, the second with an empty territory cell.\<close>

definition missing_territory :: frame where
  "missing_territory =
     [example_row, example_row\<lparr>ORDERNUMBER := Some 10101, TERRITORY := None\<rparr>]"

definition missing_territory_aggregates :: Aggregates where
  "missing_territory_aggregates = projr (process_all missing_territory)"

text \<open>The same two orders, the second with a sales cell that is no number.\<close>

definition missing_sales :: frame where
  "missing_sales = [example_row, example_row\<lparr>ORDERNUMBER := Some 10101, SALES := None\<rparr>]"

definition missing_sales_customer :: CustomerProfile where
  "missing_sales_customer =
     the (customer_profiles (projr (process_all missing_sales)) ''Acme'')"

text \<open>An embedding model that raises on every text, and a generation service that raises
  on every request.\<close>

definition failing_generator :: Generator where
  "failing_generator =
     \<lparr>encode = (\<lambda>t. Inl (Exception ''model unavailable'')), float32 = (\<lambda>x. x),
      EMBEDDING_DIMENSION = 3\<rparr>"

definition service_down :: "nat \<Rightarrow> exn + string" where
  "service_down k = Inl (Exception ''service unavailable'')"

definition initial_gen_state :: GenState where
  "initial_gen_state = \<lparr>rate_limit_tracker = [], clock = 0, slept = [], groq_calls = 0\<rparr>"

text \<open>A vector database with two customers, one product and two territories.\<close>

definition hit :: "string \<Rightarrow> rat \<Rightarrow> (string \<times> jvalue) list \<Rightarrow> ScoredPoint" where
  "hit i s pl = \<lparr>sp_id = i, score = s, payload = dict_of pl\<rparr>"

definition example_client :: client where
  "example_client request =
     (if query_filter request = Some [(''type'', ''customer'')] then
        Inr [hit ''c1'' (9/10) [(''total_sales'', JNum 500)],
             hit ''c2'' (1/2) [(''total_sales'', JNum 100)]]
      else if query_filter request = Some [(''type'', ''product'')] then
        Inr [hit ''p1'' (1/2) [(''performance_score'', JNum (4/5))]]
      else if query_filter request = Some [(''type'', ''territory'')] then
        Inr [hit ''t1'' (7/10) [(''market_share'', JNum 60)],
             hit ''t2'' (1/2) [(''market_share'', JNum 40)]]
      else Inl (Exception ''bad request''))"

text \<open>Identifiers drawn by \<open>uuid4\<close>, all different, and one customer record stored once
  and twice into an empty collection.\<close>

definition example_uuid4 :: "nat \<Rightarrow> string" where
  "example_uuid4 k = replicate (Suc k) (CHR ''u'')"

definition empty_store :: Store where
  "empty_store = \<lparr>collection = [], vector_size = 3, reachable = True, uuid_drawn = 0\<rparr>"

definition customer_record :: "string \<times> EmbeddingData" where
  "customer_record =
     (''Acme'', \<lparr>text_of = ''Customer: Acme'', embedding = [1, 0, 0],
                metadata = [(''type'', JStr ''customer''), (''territory'', JStr ''EMEA''),
                            (''total_sales'', JNum 300), (''customer_status'', JStr ''Active'')]\<rparr>)"

text \<open>A record whose vector has two components, one fewer than the collection asks for.\<close>

definition short_record :: "string \<times> EmbeddingData" where
  "short_record =
     (''Atelier'', \<lparr>text_of = ''Customer: Atelier'', embedding = [1, 0],
                   metadata = [(''type'', JStr ''customer'')]\<rparr>)"

definition stored_once :: Store where
  "stored_once = snd (store_embeddings example_uuid4 [customer_record] empty_store)"

definition stored_twice :: Store where
  "stored_twice = snd (store_embeddings example_uuid4 [customer_record] stored_once)"

section \<open>Properties of the embedding generator\<close>

lemma generate_text_embedding_cases:
  "generate_text_embedding gen txt =
     Inr (case encode gen txt of
            Inl e \<Rightarrow> np_zeros (EMBEDDING_DIMENSION gen)
          | Inr w \<Rightarrow> map (float32 gen) w)"
  by (simp add: generate_text_embedding_def try_except_def split: sum.splits)

text \<open>
  Claim C6. For every text, \<open>generate_text_embedding\<close> returns a vector and never
  raises: the vector of the model when the model answers, and the zero vector of exactly
  the configured dimension when the model raises.
\<close>

theorem generate_text_embedding_fails_soft:
  "\<exists>v. generate_text_embedding gen txt = Inr v \<and>
       (\<forall>w. encode gen txt = Inr w \<longrightarrow> v = map (float32 gen) w) \<and>
       (\<forall>e. encode gen txt = Inl e \<longrightarrow>
            v = replicate (EMBEDDING_DIMENSION gen) 0 \<and> length v = EMBEDDING_DIMENSION gen)"
  by (auto simp: generate_text_embedding_cases np_zeros_def)

text \<open>Witness for C6: the model raises, the dimension is 3, the result is three zeros.\<close>

theorem generate_text_embedding_fails_soft_witness:
  "encode failing_generator ''any text'' = Inl (Exception ''model unavailable'') \<and>
   generate_text_embedding failing_generator ''any text'' = Inr [0, 0, 0]"
  using generate_text_embedding_fails_soft [of failing_generator "''any text''"]
  by (auto simp: failing_generator_def numeral_3_eq_3)

text \<open>
  Claim C5, at the input where the code departs from it. The generation service raises
  on every request and the rate limit is the default 30. The claim asks for three
  attempts with waits between them before the base text is returned. The code returns
  the base text after one request and no wait: the handler inside the function turns the
  exception into a returned value, so \<open>@retry\<close> never sees a failure of the request.
\<close>

theorem enhance_text_with_groq_not_retried:
  "enhance_text_with_groq service_down 30 ''Customer: Acme'' initial_gen_state =
     (Inr ''Customer: Acme'',
      \<lparr>rate_limit_tracker = [0], clock = 0, slept = [], groq_calls = 1\<rparr>)"
  by code_simp

text \<open>The same for every service and every state, whenever the rate limit is positive:
  the decorated function is its own first attempt.\<close>

lemma check_rate_limit_returns:
  assumes "0 < R"
  shows "\<exists>s1. check_rate_limit R s = (Inr (), s1) \<and> groq_calls s1 = groq_calls s"
proof -
  let ?t = "filter (\<lambda>req_time. clock s - req_time < 60) (rate_limit_tracker s)"
  show ?thesis
  proof (cases ?t)
    case Nil
    then show ?thesis
      using assms by (simp add: check_rate_limit_def Let_def)
  next
    case (Cons t0 rest)
    then have "t0 \<in> set ?t" by simp
    then have "clock s - t0 < 60" by simp
    then have "\<not> 60 - (clock s - t0) < 0" by simp
    then show ?thesis
      using Cons by (simp add: check_rate_limit_def Let_def time_sleep_def)
  qed
qed

lemma enhance_attempt_returns:
  assumes "0 < R"
  shows "\<exists>v s1. enhance_attempt groq R txt s = (Inr v, s1) \<and>
           groq_calls s1 = Suc (groq_calls s) \<and>
           (v = txt \<or> (\<exists>c. groq (groq_calls s) = Inr c \<and> v = strip c))"
proof -
  obtain s1 where "check_rate_limit R s = (Inr (), s1)" "groq_calls s1 = groq_calls s"
    using check_rate_limit_returns [OF assms] by blast
  then show ?thesis
    by (cases "groq (groq_calls s)") (simp_all add: enhance_attempt_def try_except_def Let_def)
qed

lemma enhance_text_with_groq_one_attempt:
  assumes "0 < R"
  shows "enhance_text_with_groq groq R txt s = enhance_attempt groq R txt s"
proof -
  obtain v s1 where "enhance_attempt groq R txt s = (Inr v, s1)"
    using enhance_attempt_returns [OF assms] by blast
  then show ?thesis
    by (simp add: enhance_text_with_groq_def)
qed

section \<open>Properties of the vector storage\<close>

text \<open>
  Claim C9. \<open>store_embeddings\<close> with no record returns success and leaves the store as it
  was: no write is made and the number of points is unchanged.
\<close>

theorem store_embeddings_empty_noop:
  "store_embeddings uuid4 [] st = (True, st) \<and>
   points_count (snd (store_embeddings uuid4 [] st)) = points_count st"
  by (simp add: store_embeddings_def)

text \<open>Witness for C9: a store that holds one point still holds one.\<close>

theorem store_embeddings_empty_noop_witness:
  "store_embeddings example_uuid4 [] stored_once = (True, stored_once) \<and>
   points_count (snd (store_embeddings example_uuid4 [] stored_once)) = 1"
proof -
  have "points_count stored_once = 1" by code_simp
  then show ?thesis
    using store_embeddings_empty_noop [of example_uuid4 stored_once] by simp
qed

subsection \<open>Identifiers and repeated stores\<close>

lemma upsert_point_fresh:
  "point_id p \<notin> point_id ` set qs \<Longrightarrow> upsert_point p qs = qs @ [p]"
  by (induction qs) auto

lemma fold_upsert_point_fresh:
  "distinct (map point_id ps) \<Longrightarrow> point_id ` set ps \<inter> point_id ` set qs = {} \<Longrightarrow>
   fold upsert_point ps qs = qs @ ps"
proof (induction ps arbitrary: qs)
  case Nil
  then show ?case by simp
next
  case (Cons p ps)
  have "upsert_point p qs = qs @ [p]"
    using Cons.prems by (intro upsert_point_fresh) auto
  moreover have "fold upsert_point ps (qs @ [p]) = (qs @ [p]) @ ps"
    using Cons.prems by (intro Cons.IH) auto
  ultimately show ?case by simp
qed

lemma make_points_ids:
  "map point_id (make_points uuid4 n items) = map uuid4 [n ..< n + length items]"
proof (induction items arbitrary: n)
  case Nil
  then show ?case by simp
next
  case (Cons item items)
  obtain k e where item: "item = (k, e)" by (cases item)
  have e: "n + length (item # items) = Suc n + length items"
    by simp
  have step: "[n ..< n + length (item # items)] = n # [Suc n ..< Suc n + length items]"
    unfolding e by (rule upt_conv_Cons) simp
  have "map point_id (make_points uuid4 n (item # items)) =
          uuid4 n # map point_id (make_points uuid4 (Suc n) items)"
    by (simp add: item make_point_def)
  also have "\<dots> = uuid4 n # map uuid4 [Suc n ..< Suc n + length items]"
    by (simp only: Cons.IH)
  also have "\<dots> = map uuid4 [n ..< n + length (item # items)]"
    by (simp only: step list.map)
  finally show ?case .
qed

text \<open>
  Claim C4 as stated fails. The same customer record is stored twice, and \<open>uuid4\<close>
  draws a new identifier for it each time: the collection then holds two points with
  the key of that one entity, where the claim has the second store replace the first.
\<close>

theorem store_embeddings_twice_duplicates:
  "entity_keys stored_once = [Some (JStr ''Acme'')] \<and>
   entity_keys stored_twice = [Some (JStr ''Acme''), Some (JStr ''Acme'')] \<and>
   points_count stored_twice = 2"
  by code_simp

lemma make_points_vectors:
  "map point_vector (make_points uuid4 n items) = map (\<lambda>item. embedding (snd item)) items"
  by (induction items arbitrary: n) (auto simp: make_point_def)

lemma make_points_accepted:
  "list_all (accepted st) (make_points uuid4 n items) =
     list_all (\<lambda>item. length (embedding (snd item)) = vector_size st) items"
proof -
  have "list_all (accepted st) (make_points uuid4 n items) =
        list_all (\<lambda>v. length v = vector_size st) (map point_vector (make_points uuid4 n items))"
    by (simp add: list_all_iff accepted_def)
  then show ?thesis
    by (simp add: make_points_vectors list_all_iff)
qed

text \<open>A batch the database rejects: nothing is written and the call returns \<open>False\<close>.\<close>

lemma store_embeddings_rejected:
  assumes "embeddings \<noteq> []"
    and "\<not> list_all (\<lambda>item. length (embedding (snd item)) = vector_size st) embeddings"
  shows "fst (store_embeddings uuid4 embeddings st) = False"
    and "collection (snd (store_embeddings uuid4 embeddings st)) = collection st"
proof -
  have ne: "make_points uuid4 (uuid_drawn st) embeddings \<noteq> []"
    using assms(1) by (cases embeddings) auto
  have rej: "\<not> list_all (accepted (st\<lparr>uuid_drawn := uuid_drawn st + length embeddings\<rparr>))
               (make_points uuid4 (uuid_drawn st) embeddings)"
    using assms(2) by (simp add: make_points_accepted)
  show "fst (store_embeddings uuid4 embeddings st) = False"
    using assms(1) ne rej by (simp add: store_embeddings_def client_upsert_def Let_def)
  show "collection (snd (store_embeddings uuid4 embeddings st)) = collection st"
    using assms(1) ne rej by (simp add: store_embeddings_def client_upsert_def Let_def)
qed

lemma store_embeddings_short_record:
  "fst (store_embeddings example_uuid4 [short_record] empty_store) = False \<and>
   points_count (snd (store_embeddings example_uuid4 [short_record] empty_store)) = 0"
  by code_simp

text \<open>
  Claim C4, amended. \<open>store_embeddings\<close> gives every record an identifier newly drawn
  by \<open>uuid4\<close> at each call. When the database can be reached, the vector of every record
  has the size of the collection, and the identifiers drawn are different from each other
  and from those in the collection, the call succeeds, the points already stored stay as
  they are, one point per record is added behind them, and the number of points grows by
  the number of records.
\<close>

theorem store_embeddings_appends_fresh_points:
  assumes "reachable st"
    and "list_all (\<lambda>item. length (embedding (snd item)) = vector_size st) embeddings"
    and "inj_on uuid4 {uuid_drawn st ..< uuid_drawn st + length embeddings}"
    and "uuid4 ` {uuid_drawn st ..< uuid_drawn st + length embeddings}
           \<inter> point_id ` set (collection st) = {}"
  shows "fst (store_embeddings uuid4 embeddings st) = True \<and>
         collection (snd (store_embeddings uuid4 embeddings st)) =
           collection st @ make_points uuid4 (uuid_drawn st) embeddings \<and>
         points_count (snd (store_embeddings uuid4 embeddings st)) =
           points_count st + length embeddings"
proof (cases "embeddings = []")
  case True
  then show ?thesis by (simp add: store_embeddings_def points_count_def)
next
  case False
  let ?ps = "make_points uuid4 (uuid_drawn st) embeddings"
  have ids: "map point_id ?ps = map uuid4 [uuid_drawn st ..< uuid_drawn st + length embeddings]"
    by (rule make_points_ids)
  have len: "length ?ps = length embeddings"
    using arg_cong [OF ids, of length] by simp
  have d: "distinct (map point_id ?ps)"
    using assms(3) by (simp add: ids distinct_map)
  have "point_id ` set ?ps = set (map point_id ?ps)" by simp
  also have "\<dots> = uuid4 ` {uuid_drawn st ..< uuid_drawn st + length embeddings}"
    by (simp only: ids set_map set_upt)
  finally have disj: "point_id ` set ?ps \<inter> point_id ` set (collection st) = {}"
    using assms(4) by simp
  have f: "fold upsert_point ?ps (collection st) = collection st @ ?ps"
    by (rule fold_upsert_point_fresh [OF d disj])
  have ne: "?ps \<noteq> []" using False len by auto
  have acc: "list_all (accepted (st\<lparr>uuid_drawn := uuid_drawn st + length embeddings\<rparr>)) ?ps"
    using assms(2) by (simp add: make_points_accepted)
  show ?thesis
    using assms(1) False ne f len acc
    by (simp add: store_embeddings_def client_upsert_def points_count_def Let_def)
qed

text \<open>Witness for C4: the record stored again into the store that holds it already.\<close>

theorem store_embeddings_appends_fresh_points_witness:
  "reachable stored_once \<and>
   list_all (\<lambda>item. length (embedding (snd item)) = vector_size stored_once) [customer_record] \<and>
   inj_on example_uuid4
     {uuid_drawn stored_once ..< uuid_drawn stored_once + length [customer_record]} \<and>
   example_uuid4 ` {uuid_drawn stored_once ..< uuid_drawn stored_once + length [customer_record]}
     \<inter> point_id ` set (collection stored_once) = {} \<and>
   points_count stored_once = 1 \<and>
   points_count (snd (store_embeddings example_uuid4 [customer_record] stored_once)) = 2"
proof -
  have r: "reachable stored_once" by code_simp
  have v: "list_all (\<lambda>item. length (embedding (snd item)) = vector_size stored_once)
             [customer_record]"
    by code_simp
  have n: "uuid_drawn stored_once = 1" by code_simp
  have ids: "map point_id (collection stored_once) = [''u'']" by code_simp
  have c: "points_count stored_once = 1" by code_simp
  have i: "inj_on example_uuid4
             {uuid_drawn stored_once ..< uuid_drawn stored_once + length [customer_record]}"
    by (simp add: n)
  have "point_id ` set (collection stored_once) = set (map point_id (collection stored_once))"
    by simp
  then have s: "point_id ` set (collection stored_once) = {''u''}"
    by (simp only: ids) simp
  have d: "example_uuid4 `
             {uuid_drawn stored_once ..< uuid_drawn stored_once + length [customer_record]}
             \<inter> point_id ` set (collection stored_once) = {}"
    by (simp add: n s example_uuid4_def)
  show ?thesis
    using store_embeddings_appends_fresh_points [OF r v i d] r v i d c by simp
qed

subsection \<open>The numeric post-filter\<close>

lemma format_hits:
  "map (\<lambda>hit. \<lparr>sp_id = sp_id hit, score = score hit, payload = payload hit\<rparr>) hits = hits"
  by (induction hits) simp_all

lemma search_similar_answer:
  "filter_conditions \<noteq> [] \<Longrightarrow>
   search_similar client emb cap filter_conditions threshold sent =
     (answer client \<lparr>query_vector = emb, query_filter = Some filter_conditions, limit = cap,
                     score_threshold = threshold\<rparr>,
      sent @ [\<lparr>query_vector = emb, query_filter = Some filter_conditions, limit = cap,
               score_threshold = threshold\<rparr>])"
  by (simp add: search_similar_def answer_def Let_def format_hits split: sum.splits)

lemma payload_ge_comparable:
  "comparable field r \<Longrightarrow> \<exists>b. payload_ge (payload r) field m = Inr b"
  by (auto simp: comparable_def payload_ge_def split: option.splits jvalue.splits)

lemma post_filter_subseq:
  "post_filter field m rs = Inr rs' \<Longrightarrow> subseq rs' rs"
  by (induction rs arbitrary: rs') (auto split: sum.splits if_splits)

lemma post_filter_raises:
  "post_filter field m rs = Inl e \<Longrightarrow> \<not> list_all (comparable field) rs"
proof (induction rs)
  case Nil
  then show ?case by simp
next
  case (Cons r rs)
  then show ?case
    using payload_ge_comparable [of field r m]
    by (auto split: sum.splits)
qed

lemma numeric_filter_cases:
  "case numeric_filter field (Some m) us of
     Inr rs \<Rightarrow> subseq rs us \<and> length rs \<le> length us
   | Inl e \<Rightarrow> \<not> list_all (comparable field) us"
  by (auto simp: numeric_filter_def post_filter_subseq post_filter_raises
           dest: post_filter_subseq [THEN list_emb_length]
           split: sum.splits)

text \<open>
  Claim C8. For every query vector, limit and minimum (of sales, of performance score,
  of market share), the search with the minimum sends the same request as the search
  without it, and what it returns is a subsequence of what the search without it
  returns: never more results, possibly fewer. The search without a minimum always
  returns; the one with a minimum raises only when the field of some hit is neither
  absent nor a number.
\<close>

theorem numeric_post_filter_subsequence:
  "(\<exists>us sent'.
      search_customers client q territory None status cap sent = (Inr us, sent') \<and>
      snd (search_customers client q territory (Some min_sales) status cap sent) = sent' \<and>
      (case fst (search_customers client q territory (Some min_sales) status cap sent) of
         Inr rs \<Rightarrow> subseq rs us \<and> length rs \<le> length us
       | Inl e \<Rightarrow> \<not> list_all (comparable ''total_sales'') us)) \<and>
   (\<exists>us sent'.
      search_products client q line deal_size None cap sent = (Inr us, sent') \<and>
      snd (search_products client q line deal_size (Some min_performance) cap sent) = sent' \<and>
      (case fst (search_products client q line deal_size (Some min_performance) cap sent) of
         Inr rs \<Rightarrow> subseq rs us \<and> length rs \<le> length us
       | Inl e \<Rightarrow> \<not> list_all (comparable ''performance_score'') us)) \<and>
   (\<exists>us sent'.
      search_territories client q None cap sent = (Inr us, sent') \<and>
      snd (search_territories client q (Some min_market_share) cap sent) = sent' \<and>
      (case fst (search_territories client q (Some min_market_share) cap sent) of
         Inr rs \<Rightarrow> subseq rs us \<and> length rs \<le> length us
       | Inl e \<Rightarrow> \<not> list_all (comparable ''market_share'') us))"
proof (intro conjI)
  show "\<exists>us sent'.
      search_customers client q territory None status cap sent = (Inr us, sent') \<and>
      snd (search_customers client q territory (Some min_sales) status cap sent) = sent' \<and>
      (case fst (search_customers client q territory (Some min_sales) status cap sent) of
         Inr rs \<Rightarrow> subseq rs us \<and> length rs \<le> length us
       | Inl e \<Rightarrow> \<not> list_all (comparable ''total_sales'') us)"
    using numeric_filter_cases [where field = "''total_sales''" and m = min_sales]
    by (simp add: search_customers_def numeric_filter_def [of _ None] split_beta Let_def)
  show "\<exists>us sent'.
      search_products client q line deal_size None cap sent = (Inr us, sent') \<and>
      snd (search_products client q line deal_size (Some min_performance) cap sent) = sent' \<and>
      (case fst (search_products client q line deal_size (Some min_performance) cap sent) of
         Inr rs \<Rightarrow> subseq rs us \<and> length rs \<le> length us
       | Inl e \<Rightarrow> \<not> list_all (comparable ''performance_score'') us)"
    using numeric_filter_cases [where field = "''performance_score''" and m = min_performance]
    by (simp add: search_products_def numeric_filter_def [of _ None] split_beta Let_def)
  show "\<exists>us sent'.
      search_territories client q None cap sent = (Inr us, sent') \<and>
      snd (search_territories client q (Some min_market_share) cap sent) = sent' \<and>
      (case fst (search_territories client q (Some min_market_share) cap sent) of
         Inr rs \<Rightarrow> subseq rs us \<and> length rs \<le> length us
       | Inl e \<Rightarrow> \<not> list_all (comparable ''market_share'') us)"
    using numeric_filter_cases [where field = "''market_share''" and m = min_market_share]
    by (simp add: search_territories_def numeric_filter_def [of _ None] split_beta Let_def)
qed

text \<open>Witness for C8: of the two customers found, the minimum of 200 keeps the first.\<close>

theorem numeric_post_filter_subsequence_witness:
  "map sp_id (projr (fst (search_customers example_client [0, 0, 0] None None None 3 [])))
     = [''c1'', ''c2''] \<and>
   map sp_id (projr (fst (search_customers example_client [0, 0, 0] None (Some 200) None 3 [])))
     = [''c1''] \<and>
   subseq (projr (fst (search_customers example_client [0, 0, 0] None (Some 200) None 3 [])))
          (projr (fst (search_customers example_client [0, 0, 0] None None None 3 [])))"
proof -
  let ?u = "fst (search_customers example_client [0, 0, 0] None None None 3 [])"
  let ?f = "fst (search_customers example_client [0, 0, 0] None (Some 200) None 3 [])"
  have u: "map sp_id (projr ?u) = [''c1'', ''c2'']"
    by code_simp
  have f: "map sp_id (projr ?f) = [''c1'']"
    by code_simp
  have "\<not> isl ?f"
    by code_simp
  then have rs: "?f = Inr (projr ?f)"
    by simp
  from numeric_post_filter_subsequence
         [where client = example_client and q = "[0, 0, 0]" and territory = None
            and status = None and cap = 3 and sent = "[]" and min_sales = 200,
          THEN conjunct1]
  obtain us sent' where
    "search_customers example_client [0, 0, 0] None None None 3 [] = (Inr us, sent')"
    and "case ?f of
           Inr rs \<Rightarrow> subseq rs us \<and> length rs \<le> length us
         | Inl e \<Rightarrow> \<not> list_all (comparable ''total_sales'') us"
    by blast
  then have "subseq (projr ?f) (projr ?u)"
    using rs by (cases ?f) simp_all
  then show ?thesis
    using u f by simp
qed

section \<open>Properties of the sales agent\<close>

lemma search_customers_plain:
  "search_customers client emb None None None cap sent =
     (Inr (answer client (spec_category_request emb (''customer'', cap))),
      sent @ [spec_category_request emb (''customer'', cap)])"
  by (simp add: search_customers_def search_similar_answer optional_condition_def
        numeric_filter_def spec_category_request_def)

lemma search_products_plain:
  "search_products client emb None None None cap sent =
     (Inr (answer client (spec_category_request emb (''product'', cap))),
      sent @ [spec_category_request emb (''product'', cap)])"
  by (simp add: search_products_def search_similar_answer optional_condition_def
        numeric_filter_def spec_category_request_def)

lemma search_territories_plain:
  "search_territories client emb None cap sent =
     (Inr (answer client (spec_category_request emb (''territory'', cap))),
      sent @ [spec_category_request emb (''territory'', cap)])"
  by (simp add: search_territories_def search_similar_answer
        numeric_filter_def spec_category_request_def)

lemma retrieve_context_eq:
  assumes "generate_text_embedding gen query = Inr emb"
  shows "retrieve_context gen client query context_type sent =
     (Inr (sort_by_score_desc
            (concat (map (\<lambda>c. answer client (spec_category_request emb c))
                         (spec_issued_searches context_type)))),
      sent @ map (spec_category_request emb) (spec_issued_searches context_type))"
  using assms
  by (simp add: retrieve_context_def category_search_def spec_issued_searches_def
        search_customers_plain search_products_plain search_territories_plain)

lemma sort_by_score_desc_mset: "mset (sort_by_score_desc rs) = mset rs"
  by (simp add: sort_by_score_desc_def)

lemma sort_by_score_desc_sorted:
  "sorted_wrt (\<lambda>a b. score a \<ge> score b) (sort_by_score_desc rs)"
proof -
  have "sorted (map (\<lambda>x. - score x) (sort_key (\<lambda>x. - score x) rs))"
    by (rule sorted_sort_key)
  then show ?thesis
    by (simp add: sort_by_score_desc_def sorted_map)
qed

lemma sort_by_score_desc_stable:
  "filter (\<lambda>x. score x = s) (sort_by_score_desc rs) = filter (\<lambda>x. score x = s) rs"
  using sort_key_stable [of "\<lambda>x. - score x" "- s" rs]
  by (simp add: sort_by_score_desc_def)

text \<open>
  Claim C7. For every query and scope, \<open>retrieve_context\<close> sends exactly the category
  searches the scope asks for, with the caps customer 3, product 3, territory 2 and in
  that order, and returns the concatenation of their answers sorted by descending score:
  the same results, each as often, none before one of higher score, and the results of
  any one score in the order in which the searches gave them.
\<close>

theorem retrieve_context_stable_merge:
  "\<exists>emb rs.
     generate_text_embedding gen query = Inr emb \<and>
     retrieve_context gen client query context_type sent =
       (Inr rs, sent @ map (spec_category_request emb) (spec_issued_searches context_type)) \<and>
     mset rs = mset (concat (map (\<lambda>c. answer client (spec_category_request emb c))
                                 (spec_issued_searches context_type))) \<and>
     sorted_wrt (\<lambda>a b. score a \<ge> score b) rs \<and>
     (\<forall>s. filter (\<lambda>x. score x = s) rs =
          filter (\<lambda>x. score x = s)
            (concat (map (\<lambda>c. answer client (spec_category_request emb c))
                         (spec_issued_searches context_type))))"
proof -
  obtain emb where emb: "generate_text_embedding gen query = Inr emb"
    by (simp add: generate_text_embedding_cases)
  show ?thesis
    using emb
    by (simp add: retrieve_context_eq [OF emb] sort_by_score_desc_mset
          sort_by_score_desc_sorted sort_by_score_desc_stable)
qed

text \<open>Witness for C7: scope \<open>all\<close>; the three results of score 1/2 come out as customer,
  product, territory.\<close>

theorem retrieve_context_stable_merge_witness:
  "snd (retrieve_context failing_generator example_client ''best customers'' ''all'' []) =
     map (spec_category_request [0, 0, 0])
         [(''customer'', 3), (''product'', 3), (''territory'', 2)] \<and>
   map sp_id (projr (fst (retrieve_context failing_generator example_client
                            ''best customers'' ''all'' []))) =
     [''c1'', ''t1'', ''c2'', ''p1'', ''t2'']"
proof -
  have e: "generate_text_embedding failing_generator ''best customers'' = Inr [0, 0, 0]"
    by code_simp
  have i: "spec_issued_searches ''all'' = [(''customer'', 3), (''product'', 3), (''territory'', 2)]"
    by (simp add: spec_issued_searches_def)
  have m: "map sp_id (projr (fst (retrieve_context failing_generator example_client
                                    ''best customers'' ''all'' []))) =
           [''c1'', ''t1'', ''c2'', ''p1'', ''t2'']"
    by code_simp
  from retrieve_context_stable_merge
         [of failing_generator "''best customers''" example_client "''all''" "[]"]
  obtain emb rs where
    "generate_text_embedding failing_generator ''best customers'' = Inr emb"
    "retrieve_context failing_generator example_client ''best customers'' ''all'' [] =
       (Inr rs, [] @ map (spec_category_request emb) (spec_issued_searches ''all''))"
    by blast
  then show ?thesis
    using e i m by auto
qed

text \<open>
  Claim C10. For every query and every scope other than \<open>all\<close>, \<open>customer\<close>, \<open>product\<close>
  and \<open>territory\<close>, \<open>retrieve_context\<close> sends no search to the vector store and returns
  the empty list; it does not raise and does not fall back to the scope \<open>all\<close>.
\<close>

theorem retrieve_context_unknown_scope:
  "context_type \<notin> {''all'', ''customer'', ''product'', ''territory''} \<Longrightarrow>
   retrieve_context gen client query context_type sent = (Inr [], sent)"
  by (simp add: retrieve_context_def generate_text_embedding_cases category_search_def
        sort_by_score_desc_def)

text \<open>Witness for C10: the scope \<open>sales\<close>.\<close>

theorem retrieve_context_unknown_scope_witness:
  "''sales'' \<notin> {''all'', ''customer'', ''product'', ''territory''} \<and>
   retrieve_context failing_generator example_client ''who buys most'' ''sales'' [] = (Inr [], [])"
  using retrieve_context_unknown_scope
          [of "''sales''" failing_generator example_client "''who buys most''" "[]"]
  by simp

section \<open>Properties of the sales data processor\<close>

subsection \<open>Dictionaries, groups and sums\<close>

lemma dict_of_fold:
  "fold (\<lambda>(k, v) d. d(k \<mapsto> v)) (map (\<lambda>k. (k, f k)) ks) d0 =
     (\<lambda>k. if k \<in> set ks then Some (f k) else d0 k)"
  by (induction ks arbitrary: d0) (auto simp: fun_eq_iff)

lemma dict_of_keys:
  "dict_of (map (\<lambda>k. (k, f k)) ks) k = (if k \<in> set ks then Some (f k) else None)"
  by (simp add: dict_of_def dict_of_fold)

lemma set_map_filter: "set (List.map_filter f xs) = {y. \<exists>x \<in> set xs. f x = Some y}"
  by (induction xs) (auto simp: List.map_filter_simps split: option.splits)

lemma set_group_keys: "set (group_keys key df) = {k. \<exists>r \<in> set df. key r = Some k}"
  by (simp add: group_keys_def set_map_filter)

lemma distinct_group_keys: "distinct (group_keys key df)"
  by (simp add: group_keys_def)

lemma length_map_filter:
  "length (List.map_filter c g) = length (filter (\<lambda>r. c r \<noteq> None) g)"
  by (induction g) (auto simp: List.map_filter_simps split: option.splits)

lemma col_count_filter: "col_count c g = length (filter (\<lambda>r. c r \<noteq> None) g)"
  by (simp add: col_count_def length_map_filter)

lemma filter_conj_length:
  "length (filter Q (filter P xs)) = length (filter (\<lambda>r. P r \<and> Q r) xs)"
  by (induction xs) auto

lemma col_sum_split:
  "\<forall>r \<in> set df. \<not> (P r \<and> Q r) \<Longrightarrow>
   col_sum c (filter (\<lambda>r. P r \<or> Q r) df) = col_sum c (filter P df) + col_sum c (filter Q df)"
  by (induction df) (auto simp: col_sum_def List.map_filter_simps split: option.splits)

lemma sum_groups:
  "distinct ks \<Longrightarrow>
   sum_list (map (\<lambda>k. col_sum c (group_rows key df k)) ks) =
     col_sum c (filter (\<lambda>r. \<exists>k \<in> set ks. key r = Some k) df)"
proof (induction ks)
  case Nil
  then show ?case by (simp add: col_sum_def List.map_filter_simps)
next
  case (Cons k ks)
  have "col_sum c (filter (\<lambda>r. key r = Some k \<or> (\<exists>k' \<in> set ks. key r = Some k')) df) =
        col_sum c (filter (\<lambda>r. key r = Some k) df) +
        col_sum c (filter (\<lambda>r. \<exists>k' \<in> set ks. key r = Some k') df)"
    using Cons.prems by (intro col_sum_split) auto
  then show ?case
    using Cons by (simp add: group_rows_def)
qed

lemma sum_all_groups:
  "sum_list (map (\<lambda>k. col_sum c (group_rows key df k)) (group_keys key df)) =
     col_sum c (filter (\<lambda>r. key r \<noteq> None) df)"
proof -
  have "filter (\<lambda>r. \<exists>k \<in> set (group_keys key df). key r = Some k) df =
        filter (\<lambda>r. key r \<noteq> None) df"
    by (rule filter_cong) (auto simp: set_group_keys)
  then show ?thesis
    by (simp add: sum_groups [OF distinct_group_keys])
qed

lemma sum_options_Some:
  "sum_options (map (\<lambda>k. Some (a k)) ks) = Some (sum_list (map a ks))"
  by (induction ks) simp_all

lemma sum_list_scaled:
  "sum_list (map (\<lambda>k. a k / g * 100) ks) = sum_list (map a ks) / g * (100::rat)"
  by (induction ks) (simp_all add: add_divide_distrib distrib_right)

lemma process_all_Inr:
  assumes "process_all raw = Inr agg"
  shows "cleaned agg = drop_duplicates (map fill_missing raw)"
    and "customer_profiles agg = create_customer_profiles (cleaned agg)"
    and "product_catalog agg = analyze_product_catalog (cleaned agg)"
    and "territory_analysis agg = analyze_territories (cleaned agg)"
  using assms
  by (auto simp: process_all_def clean_data_def split: sum.splits if_splits)

subsection \<open>Performance score\<close>

text \<open>
  Claim C1, at the input where the code departs from it. One product has two orders of
  100 each, one unit each. Its total sales are 200, the largest total of any product, so
  the claim gives it the score 0.5 + 0.3 + 0.2 = 1. The code divides the total by the
  largest sales value of a single row, which is 100, and the score is 3/2, outside [0,1].
\<close>

theorem performance_score_exceeds_one:
  "\<not> isl (process_all two_orders) \<and>
   product_catalog two_orders_aggregates ''Classic Cars_S10_1949'' = Some two_orders_product \<and>
   p_total_sales two_orders_product = 200 \<and>
   order_count two_orders_product = 2 \<and>
   total_quantity two_orders_product = 2 \<and>
   performance_score two_orders_product = 3 / 2"
  by code_simp

subsection \<open>Market share\<close>

lemma territory_lookup:
  "analyze_territories df k =
     (if k \<in> set (group_keys TERRITORY df) then Some (territory_row df k) else None)"
  by (simp add: analyze_territories_def dict_of_keys)

lemma market_share_row:
  "col_sum SALES df \<noteq> 0 \<Longrightarrow>
   market_share (territory_row df k) =
     Some (t_total_sales (territory_row df k) / col_sum SALES df * 100)"
  by (simp add: territory_row_def float_div_def Let_def)

lemma market_share_total_eq:
  assumes "col_sum SALES df \<noteq> 0"
  shows "market_share_total df =
     Some (col_sum SALES (filter (\<lambda>r. TERRITORY r \<noteq> None) df) / col_sum SALES df * 100)"
proof -
  have eq: "map (\<lambda>k. case analyze_territories df k of None \<Rightarrow> None | Some t \<Rightarrow> market_share t)
            (group_keys TERRITORY df) =
        map (\<lambda>k. Some (col_sum SALES (group_rows TERRITORY df k) / col_sum SALES df * 100))
            (group_keys TERRITORY df)"
    using assms
    by (intro map_cong refl)
       (simp add: territory_lookup market_share_row, simp add: territory_row_def Let_def)
  show ?thesis
    unfolding market_share_total_def eq sum_options_Some sum_list_scaled sum_all_groups ..
qed

text \<open>
  Claim C2 as stated fails. Of two orders of 100 each, one has the territory EMEA and
  the other an empty territory cell. EMEA is the only territory of the analysis, and its
  market share is 50: the shares of all territories add up to 50, not to 100.
\<close>

theorem market_share_missing_territory:
  "\<not> isl (process_all missing_territory) \<and>
   map_option market_share (territory_analysis missing_territory_aggregates ''EMEA'')
     = Some (Some 50) \<and>
   market_share_total (cleaned missing_territory_aggregates) = Some 50 \<and>
   market_share_total (cleaned missing_territory_aggregates) \<noteq> Some 100"
  by code_simp

text \<open>
  Claim C2, amended. When the sales of all cleaned rows do not add up to zero, the market
  share of each territory is 100 times its total sales over the sales of all cleaned
  rows, the rows without a territory included; the shares of all territories add up to
  100 times the sales of the rows that have a territory over the sales of all rows; and
  they add up to 100 when every row has a territory.
\<close>

theorem market_share_of_all_rows:
  assumes "process_all raw = Inr agg"
    and "col_sum SALES (cleaned agg) \<noteq> 0"
  shows "(\<forall>k t. territory_analysis agg k = Some t \<longrightarrow>
            market_share t = Some (t_total_sales t / col_sum SALES (cleaned agg) * 100)) \<and>
         market_share_total (cleaned agg) =
           Some (col_sum SALES (filter (\<lambda>r. TERRITORY r \<noteq> None) (cleaned agg))
                 / col_sum SALES (cleaned agg) * 100) \<and>
         ((\<forall>r \<in> set (cleaned agg). TERRITORY r \<noteq> None) \<longrightarrow>
            market_share_total (cleaned agg) = Some 100)"
proof (intro conjI allI impI)
  fix k t
  assume "territory_analysis agg k = Some t"
  then have "t = territory_row (cleaned agg) k"
    by (simp add: process_all_Inr(4) [OF assms(1)] territory_lookup split: if_splits)
  then show "market_share t = Some (t_total_sales t / col_sum SALES (cleaned agg) * 100)"
    by (simp add: market_share_row [OF assms(2)])
next
  show total: "market_share_total (cleaned agg) =
           Some (col_sum SALES (filter (\<lambda>r. TERRITORY r \<noteq> None) (cleaned agg))
                 / col_sum SALES (cleaned agg) * 100)"
    by (rule market_share_total_eq [OF assms(2)])
  assume "\<forall>r \<in> set (cleaned agg). TERRITORY r \<noteq> None"
  then have "filter (\<lambda>r. TERRITORY r \<noteq> None) (cleaned agg) = cleaned agg"
    by (intro filter_True) simp
  then show "market_share_total (cleaned agg) = Some 100"
    using assms(2) by (simp only: total) simp
qed

text \<open>Witness for C2: two orders in EMEA; its share, and the sum of the shares, is 100.\<close>

theorem market_share_of_all_rows_witness:
  "process_all two_orders = Inr two_orders_aggregates \<and>
   col_sum SALES (cleaned two_orders_aggregates) \<noteq> 0 \<and>
   list_all (\<lambda>r. TERRITORY r \<noteq> None) (cleaned two_orders_aggregates) \<and>
   map_option market_share (territory_analysis two_orders_aggregates ''EMEA'') = Some (Some 100) \<and>
   market_share_total (cleaned two_orders_aggregates) = Some 100"
proof -
  have "\<not> isl (process_all two_orders)"
    by code_simp
  then have a: "process_all two_orders = Inr two_orders_aggregates"
    by (simp add: two_orders_aggregates_def)
  have b: "col_sum SALES (cleaned two_orders_aggregates) \<noteq> 0"
    by code_simp
  have c: "list_all (\<lambda>r. TERRITORY r \<noteq> None) (cleaned two_orders_aggregates)"
    by code_simp
  have d: "map_option market_share (territory_analysis two_orders_aggregates ''EMEA'')
             = Some (Some 100)"
    by code_simp
  from c have "\<forall>r \<in> set (cleaned two_orders_aggregates). TERRITORY r \<noteq> None"
    by (simp add: list_all_iff)
  with market_share_of_all_rows [OF a b]
  have "market_share_total (cleaned two_orders_aggregates) = Some 100"
    by blast
  then show ?thesis
    using a b c d by simp
qed

subsection \<open>Customer profiles\<close>

lemma customer_lookup:
  "create_customer_profiles df k =
     (if k \<in> set (group_keys CUSTOMERNAME df) then Some (customer_row df k) else None)"
  by (simp add: create_customer_profiles_def dict_of_keys)

text \<open>
  Claim C3 as stated fails. A customer has two orders, one of 100 and one whose sales
  cell is no number. The profile has 2 orders and total sales of 100, and its average
  order value is 100, not 100 / 2.
\<close>

theorem avg_order_value_missing_sales:
  "total_orders missing_sales_customer = 2 \<and>
   total_sales missing_sales_customer = 100 \<and>
   avg_order_value missing_sales_customer = Some 100 \<and>
   avg_order_value missing_sales_customer \<noteq>
     Some (total_sales missing_sales_customer / of_nat (total_orders missing_sales_customer))"
  by code_simp

text \<open>
  Claim C3, amended. For every customer profile produced from the cleaned frame, which
  is the frame after deduplication: the number of orders is the number of the customer's
  rows that have an order number; the average order value is the total sales divided by
  the number of the customer's rows that have a sales value, and no number when there is
  no such row; and when every row of the customer has an order number and a sales value,
  the number of orders is the number of the customer's rows, it is positive, and the
  average order value is the total sales divided by the number of orders.
\<close>

theorem customer_profile_counts_and_average:
  assumes "process_all raw = Inr agg"
    and "customer_profiles agg k = Some p"
  shows "cleaned agg = drop_duplicates (map fill_missing raw) \<and>
         total_orders p =
           length (filter (\<lambda>r. CUSTOMERNAME r = Some k \<and> ORDERNUMBER r \<noteq> None) (cleaned agg)) \<and>
         avg_order_value p =
           (let n = length (filter (\<lambda>r. CUSTOMERNAME r = Some k \<and> SALES r \<noteq> None) (cleaned agg))
            in if n = 0 then None else Some (total_sales p / of_nat n)) \<and>
         ((\<forall>r \<in> set (cleaned agg).
              CUSTOMERNAME r = Some k \<longrightarrow> ORDERNUMBER r \<noteq> None \<and> SALES r \<noteq> None) \<longrightarrow>
            total_orders p = length (filter (\<lambda>r. CUSTOMERNAME r = Some k) (cleaned agg)) \<and>
            0 < total_orders p \<and>
            avg_order_value p = Some (total_sales p / of_nat (total_orders p)))"
proof -
  let ?df = "cleaned agg"
  let ?g = "filter (\<lambda>r. CUSTOMERNAME r = Some k) ?df"
  have key: "k \<in> set (group_keys CUSTOMERNAME ?df)" and p: "p = customer_row ?df k"
    using assms(2)
    by (simp_all add: process_all_Inr(2) [OF assms(1)] customer_lookup split: if_splits)
  have orders: "total_orders p = length (filter (\<lambda>r. ORDERNUMBER r \<noteq> None) ?g)"
    by (simp add: p customer_row_def group_rows_def col_count_filter Let_def)
  have nsales: "length (List.map_filter SALES ?g) = length (filter (\<lambda>r. SALES r \<noteq> None) ?g)"
    by (rule length_map_filter)
  have avg: "avg_order_value p =
      (if length (filter (\<lambda>r. SALES r \<noteq> None) ?g) = 0 then None
       else Some (total_sales p / of_nat (length (filter (\<lambda>r. SALES r \<noteq> None) ?g))))"
    unfolding nsales [symmetric]
    by (simp add: p customer_row_def group_rows_def col_mean_def col_sum_def Let_def)
  have nonempty: "?g \<noteq> []"
    using key by (auto simp: set_group_keys filter_empty_conv)
  have full: "total_orders p = length ?g \<and> 0 < total_orders p \<and>
              avg_order_value p = Some (total_sales p / of_nat (total_orders p))"
    if h: "\<forall>r \<in> set ?df. CUSTOMERNAME r = Some k \<longrightarrow> ORDERNUMBER r \<noteq> None \<and> SALES r \<noteq> None"
  proof -
    have "filter (\<lambda>r. ORDERNUMBER r \<noteq> None) ?g = ?g"
      by (rule filter_True) (use h in auto)
    moreover have "filter (\<lambda>r. SALES r \<noteq> None) ?g = ?g"
      by (rule filter_True) (use h in auto)
    ultimately show ?thesis
      using nonempty by (simp add: orders avg)
  qed
  have c2: "total_orders p =
      length (filter (\<lambda>r. CUSTOMERNAME r = Some k \<and> ORDERNUMBER r \<noteq> None) ?df)"
    unfolding orders by (rule filter_conj_length)
  have c3: "avg_order_value p =
      (let n = length (filter (\<lambda>r. CUSTOMERNAME r = Some k \<and> SALES r \<noteq> None) ?df)
       in if n = 0 then None else Some (total_sales p / of_nat n))"
    unfolding avg filter_conj_length Let_def by (rule refl)
  show ?thesis
  proof (intro conjI impI)
    show "cleaned agg = drop_duplicates (map fill_missing raw)"
      by (rule process_all_Inr(1) [OF assms(1)])
    show "total_orders p =
      length (filter (\<lambda>r. CUSTOMERNAME r = Some k \<and> ORDERNUMBER r \<noteq> None) ?df)"
      by (rule c2)
    show "avg_order_value p =
      (let n = length (filter (\<lambda>r. CUSTOMERNAME r = Some k \<and> SALES r \<noteq> None) ?df)
       in if n = 0 then None else Some (total_sales p / of_nat n))"
      by (rule c3)
  next
    assume h: "\<forall>r \<in> set ?df. CUSTOMERNAME r = Some k \<longrightarrow> ORDERNUMBER r \<noteq> None \<and> SALES r \<noteq> None"
    show "total_orders p = length ?g" "0 < total_orders p"
      "avg_order_value p = Some (total_sales p / of_nat (total_orders p))"
      using full [OF h] by blast+
  qed
qed

text \<open>Witness for C3: two orders of 100 each; 2 orders, 200 in all, 100 on average.\<close>

theorem customer_profile_counts_and_average_witness:
  "process_all two_orders = Inr two_orders_aggregates \<and>
   customer_profiles two_orders_aggregates ''Acme'' = Some two_orders_customer \<and>
   list_all (\<lambda>r. ORDERNUMBER r \<noteq> None \<and> SALES r \<noteq> None)
     (filter (\<lambda>r. CUSTOMERNAME r = Some ''Acme'') (cleaned two_orders_aggregates)) \<and>
   total_orders two_orders_customer = 2 \<and>
   total_sales two_orders_customer = 200 \<and>
   avg_order_value two_orders_customer = Some 100"
proof -
  have "\<not> isl (process_all two_orders)"
    by code_simp
  then have a: "process_all two_orders = Inr two_orders_aggregates"
    by (simp add: two_orders_aggregates_def)
  have b: "customer_profiles two_orders_aggregates ''Acme'' = Some two_orders_customer"
    by code_simp
  have c: "list_all (\<lambda>r. ORDERNUMBER r \<noteq> None \<and> SALES r \<noteq> None)
             (filter (\<lambda>r. CUSTOMERNAME r = Some ''Acme'') (cleaned two_orders_aggregates))"
    by code_simp
  have d: "length (filter (\<lambda>r. CUSTOMERNAME r = Some ''Acme'') (cleaned two_orders_aggregates)) = 2"
    by code_simp
  have e: "total_sales two_orders_customer = 200"
    by code_simp
  from c have "\<forall>r \<in> set (cleaned two_orders_aggregates).
      CUSTOMERNAME r = Some ''Acme'' \<longrightarrow> ORDERNUMBER r \<noteq> None \<and> SALES r \<noteq> None"
    by (simp add: list_all_iff)
  with customer_profile_counts_and_average [OF a b]
  have "total_orders two_orders_customer =
          length (filter (\<lambda>r. CUSTOMERNAME r = Some ''Acme'') (cleaned two_orders_aggregates)) \<and>
        avg_order_value two_orders_customer =
          Some (total_sales two_orders_customer / of_nat (total_orders two_orders_customer))"
    by blast
  then have "total_orders two_orders_customer = 2 \<and>
             avg_order_value two_orders_customer = Some 100"
    using d e by simp
  then show ?thesis
    using a b c e by simp
qed

end
